theory Spec2Isabelle
  imports Main "HOL-Library.Word"
begin

unbundle bit_operations_syntax

section \<open>Data model of \<^verbatim>\<open>bgw_flipper_ir_serial.c\<close>\<close>

type_synonym u32 = "32 word"

text \<open>
  \<^verbatim>\<open>FlameTunnelState\<close>, field by field. The two handles (\<^verbatim>\<open>serial_handle\<close>,
  \<^verbatim>\<open>mutex\<close>) are pointers that are set once at start-up; they are kept as opaque
  numbers.
\<close>

record FlameTunnelState =
  serial_handle :: nat
  running :: bool
  log_to_file :: bool
  last_rng :: u32
  mutex :: nat
  in_menu :: bool
  back_pressed_time :: u32
  ok_pressed_time :: u32


text \<open>
  The application entry point \<^verbatim>\<open>bgw_flipper_ir_serial_app\<close> starts from this
  initialiser; the two handles come from the allocation calls.
\<close>

definition initial_state :: "nat \<Rightarrow> nat \<Rightarrow> FlameTunnelState" where
  "initial_state serial mtx =
     \<lparr>serial_handle = serial, running = True, log_to_file = False, last_rng = 0,
      mutex = mtx, in_menu = False, back_pressed_time = 0, ok_pressed_time = 0\<rparr>"

definition MAX_BUF :: nat where
  "MAX_BUF = 64"

definition HOLD_TIME_MS :: u32 where
  "HOLD_TIME_MS = 1000"

subsection \<open>Types of the firmware interface\<close>

text \<open>
  The enumerations of the firmware headers that the source names: input events
  (\<^verbatim>\<open>input/input.h\<close>), storage access and open modes
  (\<^verbatim>\<open>storage/filesystem_api_defines.h\<close>), fonts and alignments (\<^verbatim>\<open>gui/canvas.h\<close>).
\<close>

datatype InputKey =
  InputKeyUp | InputKeyDown | InputKeyRight | InputKeyLeft | InputKeyOk | InputKeyBack

datatype InputType =
  InputTypePress | InputTypeRelease | InputTypeShort | InputTypeLong | InputTypeRepeat

record InputEvent =
  key :: InputKey
  type :: InputType

datatype FS_AccessMode = FSAM_READ | FSAM_WRITE | FSAM_READ_WRITE

datatype FS_OpenMode =
  FSOM_OPEN_EXISTING | FSOM_OPEN_ALWAYS | FSOM_OPEN_APPEND | FSOM_CREATE_NEW | FSOM_CREATE_ALWAYS

datatype Font = FontPrimary | FontSecondary | FontKeyboard | FontBigNumbers

datatype Align = AlignLeft | AlignRight | AlignTop | AlignBottom | AlignCenter

datatype canvas_op =
    Canvas_clear
  | Canvas_set_font Font
  | Canvas_draw_str nat nat string
  | Canvas_draw_str_aligned nat nat Align Align string

subsection \<open>The machine: shared state, storage, and the effects in program order\<close>

text \<open>
  Every call into the firmware and every assignment to a field of the shared
  \<^verbatim>\<open>FlameTunnelState\<close> is appended to \<open>trace\<close> in the order in which the C statements
  execute. \<open>files\<close> is the content of the storage, by path; \<open>canvas\<close> is what the last
  draw callback painted.
\<close>

datatype field =
  Running | Log_to_file | Last_rng | In_menu | Back_pressed_time | Ok_pressed_time

datatype effect =
    Mutex_acquire nat
  | Mutex_release nat
  | Serial_tx nat string
  | Record_open string
  | Record_close string
  | File_stream_alloc
  | File_stream_open string FS_AccessMode FS_OpenMode
  | Stream_write string
  | File_stream_close
  | Store field

record machine =
  st :: FlameTunnelState
  files :: "string \<Rightarrow> string option"
  canvas :: "canvas_op list"
  trace :: "effect list"

definition emit :: "effect \<Rightarrow> machine \<Rightarrow> machine" where
  "emit e m = m\<lparr>trace := trace m @ [e]\<rparr>"

text \<open>Assignments \<^verbatim>\<open>s->field = v\<close>, one per field.\<close>

definition set_running :: "bool \<Rightarrow> machine \<Rightarrow> machine" where
  "set_running v m = emit (Store Running) (m\<lparr>st := (st m)\<lparr>running := v\<rparr>\<rparr>)"

definition set_log_to_file :: "bool \<Rightarrow> machine \<Rightarrow> machine" where
  "set_log_to_file v m = emit (Store Log_to_file) (m\<lparr>st := (st m)\<lparr>log_to_file := v\<rparr>\<rparr>)"

definition set_last_rng :: "u32 \<Rightarrow> machine \<Rightarrow> machine" where
  "set_last_rng v m = emit (Store Last_rng) (m\<lparr>st := (st m)\<lparr>last_rng := v\<rparr>\<rparr>)"

definition set_in_menu :: "bool \<Rightarrow> machine \<Rightarrow> machine" where
  "set_in_menu v m = emit (Store In_menu) (m\<lparr>st := (st m)\<lparr>in_menu := v\<rparr>\<rparr>)"

definition set_back_pressed_time :: "u32 \<Rightarrow> machine \<Rightarrow> machine" where
  "set_back_pressed_time v m =
     emit (Store Back_pressed_time) (m\<lparr>st := (st m)\<lparr>back_pressed_time := v\<rparr>\<rparr>)"

definition set_ok_pressed_time :: "u32 \<Rightarrow> machine \<Rightarrow> machine" where
  "set_ok_pressed_time v m =
     emit (Store Ok_pressed_time) (m\<lparr>st := (st m)\<lparr>ok_pressed_time := v\<rparr>\<rparr>)"

subsection \<open>Firmware calls\<close>

text \<open>
  The mutex and the serial port are seen through the calls made on them. A blocked
  \<^verbatim>\<open>furi_mutex_acquire\<close> is outside this sequential model: each callback is run from
  entry to return.
\<close>

definition furi_mutex_acquire :: "nat \<Rightarrow> machine \<Rightarrow> machine" where
  "furi_mutex_acquire mtx m = emit (Mutex_acquire mtx) m"

definition furi_mutex_release :: "nat \<Rightarrow> machine \<Rightarrow> machine" where
  "furi_mutex_release mtx m = emit (Mutex_release mtx) m"

definition furi_hal_serial_tx :: "nat \<Rightarrow> string \<Rightarrow> machine \<Rightarrow> machine" where
  "furi_hal_serial_tx handle bytes m = emit (Serial_tx handle bytes) m"

definition RECORD_STORAGE :: string where
  "RECORD_STORAGE = ''storage''"

definition furi_record_open :: "string \<Rightarrow> machine \<Rightarrow> machine" where
  "furi_record_open name m = emit (Record_open name) m"

definition furi_record_close :: "string \<Rightarrow> machine \<Rightarrow> machine" where
  "furi_record_close name m = emit (Record_close name) m"

text \<open>
  A file stream is either closed (\<open>None\<close>) or open on a path with an access mode and
  a read/write position. The open modes are those of the firmware's storage interface:
  \<^item> \<^verbatim>\<open>FSOM_OPEN_EXISTING\<close>: open the file, fail if it does not exist;
  \<^item> \<^verbatim>\<open>FSOM_OPEN_ALWAYS\<close>: open the file, create it if it does not exist;
  \<^item> \<^verbatim>\<open>FSOM_OPEN_APPEND\<close>: as \<^verbatim>\<open>FSOM_OPEN_ALWAYS\<close>, and set the read/write position
    to the end of the file;
  \<^item> \<^verbatim>\<open>FSOM_CREATE_NEW\<close>: create the file, fail if it exists;
  \<^item> \<^verbatim>\<open>FSOM_CREATE_ALWAYS\<close>: create the file, truncating an existing one.
  Every mode but \<^verbatim>\<open>FSOM_OPEN_APPEND\<close> leaves the position at offset 0. The storage is
  taken to be mounted and writable; the source ignores the results of the calls.
\<close>

type_synonym stream = "(string \<times> FS_AccessMode \<times> nat) option"

definition file_stream_alloc :: "machine \<Rightarrow> stream \<times> machine" where
  "file_stream_alloc m = (None, emit File_stream_alloc m)"

definition file_stream_open ::
  "stream \<Rightarrow> string \<Rightarrow> FS_AccessMode \<Rightarrow> FS_OpenMode \<Rightarrow> machine \<Rightarrow> stream \<times> machine" where
  "file_stream_open file path access_mode open_mode m =
     (let m' = emit (File_stream_open path access_mode open_mode) m
      in case open_mode of
           FSOM_OPEN_EXISTING \<Rightarrow>
             (case files m path of
                None \<Rightarrow> (None, m')
              | Some c \<Rightarrow> (Some (path, access_mode, 0), m'))
         | FSOM_OPEN_ALWAYS \<Rightarrow>
             (case files m path of
                None \<Rightarrow> (Some (path, access_mode, 0), m'\<lparr>files := (files m)(path \<mapsto> [])\<rparr>)
              | Some c \<Rightarrow> (Some (path, access_mode, 0), m'))
         | FSOM_OPEN_APPEND \<Rightarrow>
             (case files m path of
                None \<Rightarrow> (Some (path, access_mode, 0), m'\<lparr>files := (files m)(path \<mapsto> [])\<rparr>)
              | Some c \<Rightarrow> (Some (path, access_mode, length c), m'))
         | FSOM_CREATE_NEW \<Rightarrow>
             (case files m path of
                None \<Rightarrow> (Some (path, access_mode, 0), m'\<lparr>files := (files m)(path \<mapsto> [])\<rparr>)
              | Some c \<Rightarrow> (None, m'))
         | FSOM_CREATE_ALWAYS \<Rightarrow>
             (Some (path, access_mode, 0), m'\<lparr>files := (files m)(path \<mapsto> [])\<rparr>))"

text \<open>
  Writing at position \<open>pos\<close> replaces the bytes from \<open>pos\<close> on and extends the file
  when the data reaches beyond its end. A closed or read-only stream writes nothing.
\<close>

definition write_at :: "nat \<Rightarrow> string \<Rightarrow> string \<Rightarrow> string" where
  "write_at pos bytes content = take pos content @ bytes @ drop (pos + length bytes) content"

definition stream_write :: "stream \<Rightarrow> string \<Rightarrow> machine \<Rightarrow> stream \<times> machine" where
  "stream_write file bytes m =
     (let m' = emit (Stream_write bytes) m
      in case file of
           None \<Rightarrow> (None, m')
         | Some (path, access_mode, pos) \<Rightarrow>
             (if access_mode = FSAM_READ then (file, m')
              else case files m path of
                     None \<Rightarrow> (file, m')
                   | Some content \<Rightarrow>
                       (Some (path, access_mode, pos + length bytes),
                        m'\<lparr>files := (files m)(path \<mapsto> write_at pos bytes content)\<rparr>)))"

definition file_stream_close :: "stream \<Rightarrow> machine \<Rightarrow> stream \<times> machine" where
  "file_stream_close file m = (None, emit File_stream_close m)"

subsection \<open>Formatting\<close>

text \<open>
  \<^verbatim>\<open>%lu\<close> prints the decimal digits of an unsigned number, most significant first,
  with no leading zero. \<^verbatim>\<open>snprintf(buf, sz, ...)\<close> stores at most \<open>sz - 1\<close>
  characters and returns the length of the whole formatted text.
\<close>

definition digit_char :: "nat \<Rightarrow> char" where
  "digit_char d = ''0123456789'' ! d"

fun dec :: "nat \<Rightarrow> string" where
  "dec n = (if n < 10 then [digit_char n] else dec (n div 10) @ [digit_char (n mod 10)])"

declare dec.simps [simp del]

definition snprintf :: "nat \<Rightarrow> string \<Rightarrow> string \<times> nat" where
  "snprintf sz text = (take (sz - 1) text, length text)"

text \<open>The two format strings of the source: \<^verbatim>\<open>"RNG:%lu\n"\<close> and \<^verbatim>\<open>"%06lu"\<close>.\<close>

definition format_rng :: "u32 \<Rightarrow> string" where
  "format_rng rng = ''RNG:'' @ dec (unat rng) @ [CHR 0x0A]"

definition format_06lu :: "u32 \<Rightarrow> string" where
  "format_06lu v = replicate (6 - length (dec (unat v))) (CHR ''0'') @ dec (unat v)"

section \<open>\<^verbatim>\<open>generate_rng\<close>\<close>


text \<open>
  \<^verbatim>\<open>uint32_t seed = furi_hal_random_get() ^ DWT->CYCCNT;
  for(size_t i = 0; i < n; i++) seed ^= times[i] + i;
  return seed;\<close>

  The raw signal is the list \<open>tms\<close> (the array
  \<^verbatim>\<open>times\<close>) with \<open>n = length tms\<close>; the two hardware reads
  are parameters. The sum \<^verbatim>\<open>times[i] + i\<close> is folded into a \<^verbatim>\<open>uint32_t\<close>, so only its
  low 32 bits matter: it is the wrapping sum of 32-bit words.
\<close>

function generate_rng_loop :: "u32 list \<Rightarrow> nat \<Rightarrow> nat \<Rightarrow> u32 \<Rightarrow> u32" where
  "generate_rng_loop tms n i seed =
     (if i < n then generate_rng_loop tms n (i + 1) (seed XOR (tms ! i + of_nat i))
      else seed)"
  by pat_completeness auto
termination
  by (relation "measure (\<lambda>(tms, n, i, seed). n - i)") auto

declare generate_rng_loop.simps [simp del]

definition generate_rng :: "u32 \<Rightarrow> u32 \<Rightarrow> u32 list \<Rightarrow> u32" where
  "generate_rng hw_random cyccnt tms =
     generate_rng_loop tms (length tms) 0 (hw_random XOR cyccnt)"

text \<open>
  The mix operation in the words of the specification: start from
  \<open>hw_seed XOR cycle_counter\<close> and, for each pulse at index \<open>i\<close> with duration \<open>d\<close>,
  fold \<open>seed = seed XOR (d + i)\<close>.
\<close>

definition mix_spec :: "u32 list \<Rightarrow> u32 \<Rightarrow> u32 \<Rightarrow> u32" where
  "mix_spec pulses hw_seed cycle_counter =
     fold (\<lambda>(i, d) seed. seed XOR (d + of_nat i)) (enumerate 0 pulses)
       (hw_seed XOR cycle_counter)"


section \<open>\<^verbatim>\<open>process_ir\<close> and \<^verbatim>\<open>ir_callback\<close>\<close>

text \<open>
  \<^verbatim>\<open>process_ir\<close>: format, transmit \<open>len\<close> bytes of the buffer, log when
  \<^verbatim>\<open>s->log_to_file\<close>, then store \<^verbatim>\<open>s->last_rng\<close>.
\<close>

definition process_ir :: "machine \<Rightarrow> u32 \<Rightarrow> machine" where
  "process_ir m rng =
     (let (buf, len) = snprintf MAX_BUF (format_rng rng);
          m1 = furi_hal_serial_tx (serial_handle (st m)) (take len buf) m;
          m2 = (if log_to_file (st m1) then
                  (let m3 = furi_record_open RECORD_STORAGE m1;
                       (file0, m4) = file_stream_alloc m3;
                       (file1, m5) =
                          file_stream_open file0 ''/ext/flame_tunnel.log''
                            FSAM_WRITE FSOM_OPEN_ALWAYS m4;
                       (file2, m6) = stream_write file1 (take len buf) m5;
                       (file3, m7) = file_stream_close file2 m6
                   in furi_record_close RECORD_STORAGE m7)
                else m1)
      in set_last_rng rng m2)"

text \<open>
  \<^verbatim>\<open>ir_callback\<close>: the signal's timings and the two hardware reads of
  \<^verbatim>\<open>generate_rng\<close> are the inputs.
\<close>

definition ir_callback :: "machine \<Rightarrow> u32 list \<Rightarrow> u32 \<Rightarrow> u32 \<Rightarrow> machine" where
  "ir_callback m sig hw_random cyccnt =
     (let rng = generate_rng hw_random cyccnt sig;
          m1 = furi_mutex_acquire (mutex (st m)) m;
          m2 = process_ir m1 rng
      in furi_mutex_release (mutex (st m2)) m2)"

section \<open>\<^verbatim>\<open>draw\<close>\<close>

definition draw :: "FlameTunnelState \<Rightarrow> canvas_op list" where
  "draw s =
     [Canvas_clear, Canvas_set_font FontPrimary] @
     (if in_menu s then
        [Canvas_draw_str 2 10 ''Config Menu'',
         Canvas_draw_str 2 30 (if log_to_file s then ''Log ON'' else ''Log OFF'')]
      else
        (let (buf, len) = snprintf 32 (format_06lu (last_rng s))
         in [Canvas_draw_str 2 10 ''Flame Tunnel'',
             Canvas_set_font FontBigNumbers,
             Canvas_draw_str_aligned 64 30 AlignCenter AlignCenter buf]))"

section \<open>\<^verbatim>\<open>input_cb\<close>\<close>

text \<open>\<open>now\<close> is the value read from \<^verbatim>\<open>furi_get_tick()\<close> on entry.\<close>

definition input_cb :: "InputEvent \<Rightarrow> u32 \<Rightarrow> machine \<Rightarrow> machine" where
  "input_cb ev now m =
     (if type ev = InputTypePress then
        (let m1 = (if key ev = InputKeyBack then set_back_pressed_time now m else m)
         in if key ev = InputKeyOk then set_ok_pressed_time now m1 else m1)
      else if type ev = InputTypeRelease then
        (if key ev = InputKeyBack \<and> now - back_pressed_time (st m) \<ge> HOLD_TIME_MS then
           set_running False m
         else if key ev = InputKeyOk \<and> now - ok_pressed_time (st m) \<ge> HOLD_TIME_MS then
           set_in_menu (\<not> in_menu (st m)) m
         else if in_menu (st m) \<and> key ev = InputKeyOk then
           set_log_to_file (\<not> log_to_file (st m)) m
         else m)
      else m)"

section \<open>The three event sources\<close>

text \<open>
  The callbacks registered by the entry point: the infrared worker calls
  \<^verbatim>\<open>ir_callback\<close>, the view port calls \<^verbatim>\<open>input_cb\<close> and, on each update of the main
  loop, \<^verbatim>\<open>draw\<close>.
\<close>

datatype event =
    Infrared "u32 list" u32 u32
  | Input InputEvent u32
  | Render

fun handle :: "event \<Rightarrow> machine \<Rightarrow> machine" where
  "handle (Infrared sig hw_random cyccnt) m = ir_callback m sig hw_random cyccnt"
| "handle (Input ev now) m = input_cb ev now m"
| "handle Render m = m\<lparr>canvas := draw (st m)\<rparr>"

fun handle_all :: "event list \<Rightarrow> machine \<Rightarrow> machine" where
  "handle_all [] m = m"
| "handle_all (e # es) m = handle_all es (handle e m)"

text \<open>The machine at start-up: no file, nothing painted, nothing done yet.\<close>

definition boot :: machine where
  "boot = \<lparr>st = initial_state 0 0, files = Map.empty, canvas = [], trace = []\<rparr>"

text \<open>
  A trace keeps the locking discipline when every store to the shared state happens
  between an acquire and the next release. \<open>held\<close> says whether the mutex is held
  where the trace starts.
\<close>

fun stores_locked :: "bool \<Rightarrow> effect list \<Rightarrow> bool" where
  "stores_locked held [] = True"
| "stores_locked held (Mutex_acquire mtx # es) = stores_locked True es"
| "stores_locked held (Mutex_release mtx # es) = stores_locked False es"
| "stores_locked held (Store f # es) = (held \<and> stores_locked held es)"
| "stores_locked held (e # es) = stores_locked held es"

text \<open>
  The calls that \<^verbatim>\<open>process_ir\<close> makes on the storage when logging is enabled, in
  program order.
\<close>

definition log_effects :: "string \<Rightarrow> effect list" where
  "log_effects bytes =
     [Record_open RECORD_STORAGE, File_stream_alloc,
      File_stream_open ''/ext/flame_tunnel.log'' FSAM_WRITE FSOM_OPEN_ALWAYS,
      Stream_write bytes, File_stream_close, Record_close RECORD_STORAGE]"

text \<open>Reading a decimal numeral back: the inverse of \<open>dec\<close>.\<close>

definition dec_value :: "string \<Rightarrow> nat" where
  "dec_value cs = foldl (\<lambda>a c. 10 * a + (of_char c - 48)) 0 cs"

section \<open>Properties of \<^verbatim>\<open>generate_rng\<close>\<close>


lemma generate_rng_loop_fold:
  "i \<le> length tms \<Longrightarrow>
   generate_rng_loop tms (length tms) i seed =
     fold (\<lambda>(j, d) acc. acc XOR (d + of_nat j)) (enumerate i (drop i tms)) seed"
proof (induction tms "length tms" i seed rule: generate_rng_loop.induct)
  case (1 tms i seed)
  show ?case
  proof (cases "i < length tms")
    case True
    then have split: "drop i tms = tms ! i # drop (Suc i) tms"
      by (simp add: Cons_nth_drop_Suc)
    have "generate_rng_loop tms (length tms) i seed =
          generate_rng_loop tms (length tms) (i + 1) (seed XOR (tms ! i + of_nat i))"
      using True by (subst generate_rng_loop.simps) simp
    also have "\<dots> = fold (\<lambda>(j, d) acc. acc XOR (d + of_nat j))
                       (enumerate (i + 1) (drop (i + 1) tms))
                       (seed XOR (tms ! i + of_nat i))"
      using True by (intro "1.hyps") simp_all
    finally show ?thesis
      by (simp add: split)
  next
    case False
    with "1.prems" have "i = length tms" by simp
    then show ?thesis
      by (subst generate_rng_loop.simps) simp
  qed
qed

text \<open>
  Claim C1. For every pulse sequence and every pair of hardware values,
  \<^verbatim>\<open>generate_rng\<close> returns the fold that starts from \<open>hw_seed XOR cycle_counter\<close> and
  XORs in \<open>d + i\<close> for the pulse \<open>d\<close> at index \<open>i\<close>; on the empty sequence the result
  is \<open>hw_seed XOR cycle_counter\<close> itself.
\<close>

theorem generate_rng_is_fold:
  "generate_rng hw_seed cycle_counter pulses = mix_spec pulses hw_seed cycle_counter
   \<and> generate_rng hw_seed cycle_counter [] = hw_seed XOR cycle_counter"
proof
  show "generate_rng hw_seed cycle_counter pulses = mix_spec pulses hw_seed cycle_counter"
    using generate_rng_loop_fold [of 0 pulses "hw_seed XOR cycle_counter"]
    by (simp add: generate_rng_def mix_spec_def)
  show "generate_rng hw_seed cycle_counter [] = hw_seed XOR cycle_counter"
    by (simp add: generate_rng_def generate_rng_loop.simps)
qed


text \<open>
  The scenario of the specification: pulses 100, 200, 150 with hardware seed
  \<open>0x1000\<close> and cycle counter \<open>0x0F\<close> mix to \<open>0x103A\<close>.
\<close>

theorem generate_rng_is_fold_witness:
  "generate_rng 0x1000 0x0F [100, 200, 150] = 0x103A
   \<and> generate_rng 0x1000 0x0F [] = 0x100F"
  using generate_rng_is_fold [of "0x1000" "0x0F" "[100, 200, 150]"]
  by (simp add: mix_spec_def enumerate_eq_zip upt_rec)

section \<open>Formatting\<close>

lemmas store_defs = set_running_def set_log_to_file_def set_last_rng_def set_in_menu_def
  set_back_pressed_time_def set_ok_pressed_time_def

lemmas api_defs = furi_hal_serial_tx_def furi_record_open_def furi_record_close_def
  file_stream_alloc_def file_stream_open_def stream_write_def file_stream_close_def
  furi_mutex_acquire_def furi_mutex_release_def emit_def

lemma digit_value: "d < 10 \<Longrightarrow> of_char (digit_char d) = 48 + d"
proof -
  assume "d < 10"
  then have "d \<in> {0, 1, 2, 3, 4, 5, 6, 7, 8, 9}" by auto
  then show ?thesis by (auto simp: digit_char_def)
qed

text \<open>\<open>dec n\<close> is a decimal numeral of \<open>n\<close>: reading it back gives \<open>n\<close>.\<close>

lemma dec_value_dec: "dec_value (dec n) = n"
proof (induction n rule: dec.induct)
  case (1 n)
  show ?case
  proof (cases "n < 10")
    case True
    then show ?thesis
      by (subst dec.simps) (simp add: dec_value_def digit_value)
  next
    case False
    then have "dec_value (dec n) = 10 * dec_value (dec (n div 10)) + n mod 10"
      by (subst dec.simps) (simp add: dec_value_def digit_value)
    with False "1.IH" show ?thesis by simp
  qed
qed

lemma length_dec: "0 < k \<Longrightarrow> n < 10 ^ k \<Longrightarrow> length (dec n) \<le> k"
proof (induction n arbitrary: k rule: dec.induct)
  case (1 n)
  show ?case
  proof (cases "n < 10")
    case True
    with "1.prems" show ?thesis
      by (subst dec.simps) simp
  next
    case False
    with "1.prems" have k: "1 < k"
      by (cases "k = 1") auto
    then obtain j where j: "k = Suc j" "0 < j"
      by (cases k) auto
    with "1.prems" have "n div 10 < 10 ^ j"
      by (simp add: less_mult_imp_div_less mult.commute)
    with False j have "length (dec (n div 10)) \<le> j"
      by (intro "1.IH") simp_all
    with False j show ?thesis
      by (subst dec.simps) simp
  qed
qed

text \<open>
  The formatted line is at most 15 characters, so the 64-byte buffer never truncates
  it and \<open>len\<close> is its length.
\<close>

lemma length_format_rng: "length (format_rng rng) \<le> 15"
proof -
  have "unat rng < 2 ^ 32"
    using unsigned_less [of rng, where ?'a = nat] by simp
  then have "unat rng < 10 ^ 10"
    by simp
  then have "length (dec (unat rng)) \<le> 10"
    by (intro length_dec) simp_all
  then show ?thesis
    by (simp add: format_rng_def)
qed

lemma snprintf_format_rng:
  "snprintf MAX_BUF (format_rng rng) = (format_rng rng, length (format_rng rng))"
  using length_format_rng [of rng] by (simp add: snprintf_def MAX_BUF_def)

section \<open>What \<^verbatim>\<open>process_ir\<close> does to each part of the machine\<close>

lemma st_process_ir: "st (process_ir m rng) = (st m)\<lparr>last_rng := rng\<rparr>"
  by (simp add: process_ir_def snprintf_format_rng api_defs store_defs Let_def
      split: option.splits)

lemma trace_process_ir:
  "trace (process_ir m rng) =
     trace m @ [Serial_tx (serial_handle (st m)) (format_rng rng)] @
     (if log_to_file (st m) then log_effects (format_rng rng) else []) @
     [Store Last_rng]"
  by (simp add: process_ir_def snprintf_format_rng api_defs store_defs Let_def log_effects_def
      split: option.splits)

lemma files_process_ir_disabled:
  "\<not> log_to_file (st m) \<Longrightarrow> files (process_ir m rng) = files m"
  by (simp add: process_ir_def snprintf_format_rng api_defs store_defs Let_def)

lemma files_process_ir_enabled:
  "log_to_file (st m) \<Longrightarrow>
   files (process_ir m rng) =
     (files m)(''/ext/flame_tunnel.log'' \<mapsto>
        write_at 0 (format_rng rng)
          (case files m ''/ext/flame_tunnel.log'' of None \<Rightarrow> [] | Some c \<Rightarrow> c))"
  by (simp add: process_ir_def snprintf_format_rng api_defs store_defs Let_def
      split: option.splits)

lemma st_ir_callback:
  "st (ir_callback m sig hw_random cyccnt) =
     (st m)\<lparr>last_rng := generate_rng hw_random cyccnt sig\<rparr>"
  by (simp add: ir_callback_def Let_def st_process_ir furi_mutex_acquire_def
      furi_mutex_release_def emit_def)

lemma trace_ir_callback:
  "trace (ir_callback m sig hw_random cyccnt) =
     trace m @ [Mutex_acquire (mutex (st m))] @
     [Serial_tx (serial_handle (st m)) (format_rng (generate_rng hw_random cyccnt sig))] @
     (if log_to_file (st m) then log_effects (format_rng (generate_rng hw_random cyccnt sig))
      else []) @
     [Store Last_rng, Mutex_release (mutex (st m))]"
  by (simp add: ir_callback_def Let_def st_process_ir trace_process_ir furi_mutex_acquire_def
      furi_mutex_release_def emit_def)

section \<open>The gesture path\<close>

text \<open>The four ways through the release branch of \<^verbatim>\<open>input_cb\<close>.\<close>

lemma release_back_held:
  "type ev = InputTypeRelease \<Longrightarrow> key ev = InputKeyBack \<Longrightarrow>
   1000 \<le> now - back_pressed_time (st m) \<Longrightarrow>
   input_cb ev now m = set_running False m"
  by (simp add: input_cb_def HOLD_TIME_MS_def)

lemma release_ok_held:
  "type ev = InputTypeRelease \<Longrightarrow> key ev = InputKeyOk \<Longrightarrow>
   1000 \<le> now - ok_pressed_time (st m) \<Longrightarrow>
   input_cb ev now m = set_in_menu (\<not> in_menu (st m)) m"
  by (simp add: input_cb_def HOLD_TIME_MS_def)

lemma release_ok_short_in_menu:
  "type ev = InputTypeRelease \<Longrightarrow> key ev = InputKeyOk \<Longrightarrow>
   now - ok_pressed_time (st m) < 1000 \<Longrightarrow> in_menu (st m) \<Longrightarrow>
   input_cb ev now m = set_log_to_file (\<not> log_to_file (st m)) m"
  by (simp add: input_cb_def HOLD_TIME_MS_def not_le)

lemma release_ignored:
  "type ev = InputTypeRelease \<Longrightarrow>
   \<not> (key ev = InputKeyBack \<and> 1000 \<le> now - back_pressed_time (st m)) \<Longrightarrow>
   \<not> (key ev = InputKeyOk \<and> (1000 \<le> now - ok_pressed_time (st m) \<or> in_menu (st m))) \<Longrightarrow>
   input_cb ev now m = m"
  by (auto simp: input_cb_def HOLD_TIME_MS_def)

lemma release_cases:
  assumes "type ev = InputTypeRelease"
  obtains
    (back_held) "input_cb ev now m = set_running False m"
      "key ev = InputKeyBack" "1000 \<le> now - back_pressed_time (st m)"
  | (ok_held) "input_cb ev now m = set_in_menu (\<not> in_menu (st m)) m"
      "key ev = InputKeyOk" "1000 \<le> now - ok_pressed_time (st m)"
  | (ok_short_in_menu) "input_cb ev now m = set_log_to_file (\<not> log_to_file (st m)) m"
      "key ev = InputKeyOk" "now - ok_pressed_time (st m) < 1000" "in_menu (st m)"
  | (ignored) "input_cb ev now m = m"
      "\<not> (key ev = InputKeyBack \<and> 1000 \<le> now - back_pressed_time (st m))"
      "\<not> (key ev = InputKeyOk \<and> (1000 \<le> now - ok_pressed_time (st m) \<or> in_menu (st m)))"
proof -
  consider
    "key ev = InputKeyBack \<and> 1000 \<le> now - back_pressed_time (st m)"
  | "key ev = InputKeyOk \<and> 1000 \<le> now - ok_pressed_time (st m)"
  | "key ev = InputKeyOk \<and> now - ok_pressed_time (st m) < 1000 \<and> in_menu (st m)"
  | "\<not> (key ev = InputKeyBack \<and> 1000 \<le> now - back_pressed_time (st m)) \<and>
     \<not> (key ev = InputKeyOk \<and> (1000 \<le> now - ok_pressed_time (st m) \<or> in_menu (st m)))"
    unfolding not_le [symmetric] by blast
  then show thesis
  proof cases
    case 1
    with assms back_held show thesis
      by (simp add: release_back_held)
  next
    case 2
    with assms ok_held show thesis
      by (simp add: release_ok_held)
  next
    case 3
    with assms ok_short_in_menu show thesis
      by (simp add: release_ok_short_in_menu)
  next
    case 4
    with assms ignored show thesis
      by (simp add: release_ignored)
  qed
qed

text \<open>
  A store appends to the trace, so a handler that stores never returns the machine
  it was given.
\<close>

lemma store_changes_machine:
  "set_running v m \<noteq> m" "set_in_menu v m \<noteq> m" "set_log_to_file v m \<noteq> m"
proof -
  have "trace (set_running v m) \<noteq> trace m" "trace (set_in_menu v m) \<noteq> trace m"
       "trace (set_log_to_file v m) \<noteq> trace m"
    by (simp_all add: store_defs emit_def)
  then show "set_running v m \<noteq> m" "set_in_menu v m \<noteq> m" "set_log_to_file v m \<noteq> m"
    by auto
qed

lemma press_overwrites:
  "st (input_cb \<lparr>key = InputKeyBack, type = InputTypePress\<rparr> now m)
     = (st m)\<lparr>back_pressed_time := now\<rparr>"
  "st (input_cb \<lparr>key = InputKeyOk, type = InputTypePress\<rparr> now m)
     = (st m)\<lparr>ok_pressed_time := now\<rparr>"
  by (simp_all add: input_cb_def store_defs emit_def)

lemma release_keeps_timestamps:
  assumes "type ev = InputTypeRelease"
  shows "back_pressed_time (st (input_cb ev now m)) = back_pressed_time (st m)"
    and "ok_pressed_time (st (input_cb ev now m)) = ok_pressed_time (st m)"
  using assms
  by (cases rule: release_cases [of ev now m]; simp add: store_defs emit_def)+

lemma back_release_ignored_iff:
  assumes "type ev = InputTypeRelease" "key ev = InputKeyBack"
  shows "(input_cb ev now m = m) = (now - back_pressed_time (st m) < 1000)"
proof (cases "1000 \<le> now - back_pressed_time (st m)")
  case True
  with assms have "input_cb ev now m = set_running False m"
    by (simp add: release_back_held)
  with True show ?thesis
    by (simp add: store_changes_machine not_less)
next
  case False
  with assms have "input_cb ev now m = m"
    by (intro release_ignored) simp_all
  with False show ?thesis
    by (simp add: not_le)
qed

lemma ok_release_ignored_iff:
  assumes "type ev = InputTypeRelease" "key ev = InputKeyOk"
  shows "(input_cb ev now m = m)
           = (now - ok_pressed_time (st m) < 1000 \<and> \<not> in_menu (st m))"
proof -
  consider (held) "1000 \<le> now - ok_pressed_time (st m)"
    | (short_in_menu) "now - ok_pressed_time (st m) < 1000" "in_menu (st m)"
    | (short_normal) "now - ok_pressed_time (st m) < 1000" "\<not> in_menu (st m)"
    unfolding not_le [symmetric] by blast
  then show ?thesis
  proof cases
    case held
    with assms have "input_cb ev now m = set_in_menu (\<not> in_menu (st m)) m"
      by (simp add: release_ok_held)
    with held show ?thesis
      by (simp add: store_changes_machine not_less)
  next
    case short_in_menu
    with assms have "input_cb ev now m = set_log_to_file (\<not> log_to_file (st m)) m"
      by (simp add: release_ok_short_in_menu)
    with short_in_menu show ?thesis
      by (simp add: store_changes_machine)
  next
    case short_normal
    with assms have "input_cb ev now m = m"
      by (intro release_ignored) (simp_all add: not_le)
    with short_normal show ?thesis
      by simp
  qed
qed

text \<open>
  Claim C2, as the code has it. There is no Idle state: both press timestamps start
  at 0, a press of Back or Ok overwrites the timestamp of that key and nothing else,
  and a release never clears or changes either timestamp. A release is classified
  against whatever timestamp is stored for its key: a Back release takes no action
  (the machine is returned as it was, with no store) if and only if the elapsed time
  \<open>now - back_pressed_time\<close> (modulo \<open>2^32\<close>) is below 1000; an Ok release takes no
  action if and only if \<open>now - ok_pressed_time\<close> is below 1000 and the mode is Normal; a
  release of another key takes no action. A second release \<open>ev'\<close> that follows a
  release with no press in between is classified against the same stored timestamp.
\<close>

theorem release_classified_by_stored_timestamp:
  "back_pressed_time (initial_state serial mtx) = 0
   \<and> ok_pressed_time (initial_state serial mtx) = 0
   \<and> st (input_cb \<lparr>key = InputKeyBack, type = InputTypePress\<rparr> now m)
       = (st m)\<lparr>back_pressed_time := now\<rparr>
   \<and> st (input_cb \<lparr>key = InputKeyOk, type = InputTypePress\<rparr> now m)
       = (st m)\<lparr>ok_pressed_time := now\<rparr>
   \<and> (type ev = InputTypeRelease \<longrightarrow>
         back_pressed_time (st (input_cb ev now m)) = back_pressed_time (st m)
       \<and> ok_pressed_time (st (input_cb ev now m)) = ok_pressed_time (st m)
       \<and> (key ev = InputKeyBack \<longrightarrow>
            (input_cb ev now m = m) = (now - back_pressed_time (st m) < 1000))
       \<and> (key ev = InputKeyOk \<longrightarrow>
            (input_cb ev now m = m)
              = (now - ok_pressed_time (st m) < 1000 \<and> \<not> in_menu (st m)))
       \<and> (key ev \<noteq> InputKeyBack \<and> key ev \<noteq> InputKeyOk \<longrightarrow> input_cb ev now m = m)
       \<and> (type ev' = InputTypeRelease \<and> key ev' = InputKeyBack \<longrightarrow>
            (input_cb ev' now' (input_cb ev now m) = input_cb ev now m)
              = (now' - back_pressed_time (st m) < 1000))
       \<and> (type ev' = InputTypeRelease \<and> key ev' = InputKeyOk \<longrightarrow>
            (input_cb ev' now' (input_cb ev now m) = input_cb ev now m)
              = (now' - ok_pressed_time (st m) < 1000
                 \<and> \<not> in_menu (st (input_cb ev now m)))))"
proof -
  have start: "back_pressed_time (initial_state serial mtx) = 0
               \<and> ok_pressed_time (initial_state serial mtx) = 0"
    by (simp add: initial_state_def)
  have press: "st (input_cb \<lparr>key = InputKeyBack, type = InputTypePress\<rparr> now m)
                 = (st m)\<lparr>back_pressed_time := now\<rparr>
               \<and> st (input_cb \<lparr>key = InputKeyOk, type = InputTypePress\<rparr> now m)
                 = (st m)\<lparr>ok_pressed_time := now\<rparr>"
    by (simp add: press_overwrites)
  have release:
    "back_pressed_time (st (input_cb ev now m)) = back_pressed_time (st m)
     \<and> ok_pressed_time (st (input_cb ev now m)) = ok_pressed_time (st m)
     \<and> (key ev = InputKeyBack \<longrightarrow>
          (input_cb ev now m = m) = (now - back_pressed_time (st m) < 1000))
     \<and> (key ev = InputKeyOk \<longrightarrow>
          (input_cb ev now m = m)
            = (now - ok_pressed_time (st m) < 1000 \<and> \<not> in_menu (st m)))
     \<and> (key ev \<noteq> InputKeyBack \<and> key ev \<noteq> InputKeyOk \<longrightarrow> input_cb ev now m = m)
     \<and> (type ev' = InputTypeRelease \<and> key ev' = InputKeyBack \<longrightarrow>
          (input_cb ev' now' (input_cb ev now m) = input_cb ev now m)
            = (now' - back_pressed_time (st m) < 1000))
     \<and> (type ev' = InputTypeRelease \<and> key ev' = InputKeyOk \<longrightarrow>
          (input_cb ev' now' (input_cb ev now m) = input_cb ev now m)
            = (now' - ok_pressed_time (st m) < 1000
               \<and> \<not> in_menu (st (input_cb ev now m))))"
    if rel: "type ev = InputTypeRelease"
  proof -
    note kept = release_keeps_timestamps [OF rel, of now m]
    have other: "input_cb ev now m = m" if "key ev \<noteq> InputKeyBack \<and> key ev \<noteq> InputKeyOk"
      using rel that by (intro release_ignored) simp_all
    have second_back:
      "(input_cb ev' now' (input_cb ev now m) = input_cb ev now m)
         = (now' - back_pressed_time (st m) < 1000)"
      if "type ev' = InputTypeRelease \<and> key ev' = InputKeyBack"
      using that back_release_ignored_iff [of ev' now' "input_cb ev now m"] kept
      by simp
    have second_ok:
      "(input_cb ev' now' (input_cb ev now m) = input_cb ev now m)
         = (now' - ok_pressed_time (st m) < 1000 \<and> \<not> in_menu (st (input_cb ev now m)))"
      if "type ev' = InputTypeRelease \<and> key ev' = InputKeyOk"
      using that ok_release_ignored_iff [of ev' now' "input_cb ev now m"] kept
      by simp
    from kept other second_back second_ok
         back_release_ignored_iff [OF rel, of now m] ok_release_ignored_iff [OF rel, of now m]
    show ?thesis
      by blast
  qed
  from start press release show ?thesis
    by blast
qed

text \<open>
  A state with presses recorded at ticks 5000 (Back) and 7000 (Ok), in Menu mode.
  A press stores its tick. A Back release 999 ticks after the stored press is ignored
  and one 1000 ticks after is not; a second Back release right after it is not ignored
  either. A short Ok release in Menu mode is not ignored. On the start state, with
  nothing pressed, a Back release is ignored at tick 999 and acted on at tick 1000.
\<close>

theorem release_classified_by_stored_timestamp_witness:
  "back_pressed_time (st (input_cb \<lparr>key = InputKeyBack, type = InputTypePress\<rparr> 5000 boot))
     = 5000
   \<and> input_cb \<lparr>key = InputKeyBack, type = InputTypeRelease\<rparr> 5999
        (boot\<lparr>st := (st boot)\<lparr>back_pressed_time := 5000, ok_pressed_time := 7000,
                               in_menu := True\<rparr>\<rparr>)
       = boot\<lparr>st := (st boot)\<lparr>back_pressed_time := 5000, ok_pressed_time := 7000,
                               in_menu := True\<rparr>\<rparr>
   \<and> input_cb \<lparr>key = InputKeyBack, type = InputTypeRelease\<rparr> 6000
        (boot\<lparr>st := (st boot)\<lparr>back_pressed_time := 5000, ok_pressed_time := 7000,
                               in_menu := True\<rparr>\<rparr>)
       \<noteq> boot\<lparr>st := (st boot)\<lparr>back_pressed_time := 5000, ok_pressed_time := 7000,
                               in_menu := True\<rparr>\<rparr>
   \<and> input_cb \<lparr>key = InputKeyBack, type = InputTypeRelease\<rparr> 6001
        (input_cb \<lparr>key = InputKeyBack, type = InputTypeRelease\<rparr> 6000
           (boot\<lparr>st := (st boot)\<lparr>back_pressed_time := 5000, ok_pressed_time := 7000,
                                  in_menu := True\<rparr>\<rparr>))
       \<noteq> input_cb \<lparr>key = InputKeyBack, type = InputTypeRelease\<rparr> 6000
           (boot\<lparr>st := (st boot)\<lparr>back_pressed_time := 5000, ok_pressed_time := 7000,
                                  in_menu := True\<rparr>\<rparr>)
   \<and> input_cb \<lparr>key = InputKeyOk, type = InputTypeRelease\<rparr> 7200
        (boot\<lparr>st := (st boot)\<lparr>back_pressed_time := 5000, ok_pressed_time := 7000,
                               in_menu := True\<rparr>\<rparr>)
       \<noteq> boot\<lparr>st := (st boot)\<lparr>back_pressed_time := 5000, ok_pressed_time := 7000,
                               in_menu := True\<rparr>\<rparr>
   \<and> input_cb \<lparr>key = InputKeyBack, type = InputTypeRelease\<rparr> 999 boot = boot
   \<and> input_cb \<lparr>key = InputKeyBack, type = InputTypeRelease\<rparr> 1000 boot \<noteq> boot"
  using release_classified_by_stored_timestamp [where now = 5000 and m = boot]
        release_classified_by_stored_timestamp
          [where ev = "\<lparr>key = InputKeyBack, type = InputTypeRelease\<rparr>" and now = 5999
             and m = "boot\<lparr>st := (st boot)\<lparr>back_pressed_time := 5000, ok_pressed_time := 7000,
                                     in_menu := True\<rparr>\<rparr>"]
        release_classified_by_stored_timestamp
          [where ev = "\<lparr>key = InputKeyBack, type = InputTypeRelease\<rparr>" and now = 6000
             and m = "boot\<lparr>st := (st boot)\<lparr>back_pressed_time := 5000, ok_pressed_time := 7000,
                                     in_menu := True\<rparr>\<rparr>"
             and ev' = "\<lparr>key = InputKeyBack, type = InputTypeRelease\<rparr>" and now' = 6001]
        release_classified_by_stored_timestamp
          [where ev = "\<lparr>key = InputKeyOk, type = InputTypeRelease\<rparr>" and now = 7200
             and m = "boot\<lparr>st := (st boot)\<lparr>back_pressed_time := 5000, ok_pressed_time := 7000,
                                     in_menu := True\<rparr>\<rparr>"]
        release_classified_by_stored_timestamp
          [where ev = "\<lparr>key = InputKeyBack, type = InputTypeRelease\<rparr>" and now = 999 and m = boot]
        release_classified_by_stored_timestamp
          [where ev = "\<lparr>key = InputKeyBack, type = InputTypeRelease\<rparr>" and now = 1000 and m = boot]
  by (simp add: boot_def initial_state_def)

text \<open>
  On the start state, where no key has been pressed, a Back release at tick 1000
  clears \<open>running\<close>. After Ok is pressed at tick 0 and released at tick 1000 the mode is
  Menu; a second Ok release at tick 2000, with no press in between, is acted on
  again and the mode is back to Normal.
\<close>

theorem release_without_press_counterexample:
  "running (st boot)
   \<and> \<not> running (st (input_cb \<lparr>key = InputKeyBack, type = InputTypeRelease\<rparr> 1000 boot))
   \<and> in_menu (st (input_cb \<lparr>key = InputKeyOk, type = InputTypeRelease\<rparr> 1000
                     (input_cb \<lparr>key = InputKeyOk, type = InputTypePress\<rparr> 0 boot)))
   \<and> \<not> in_menu (st (input_cb \<lparr>key = InputKeyOk, type = InputTypeRelease\<rparr> 2000
                     (input_cb \<lparr>key = InputKeyOk, type = InputTypeRelease\<rparr> 1000
                        (input_cb \<lparr>key = InputKeyOk, type = InputTypePress\<rparr> 0 boot))))"
  by (simp add: input_cb_def store_defs emit_def HOLD_TIME_MS_def boot_def initial_state_def)

text \<open>
  Claim C3. A key pressed at tick \<open>t0\<close> and released at tick \<open>t1\<close> is held exactly when
  \<open>t1 - t0 \<ge> 1000\<close>, the difference being that of the 32-bit tick counter (and the
  difference of the numbers when \<open>t0 \<le> t1\<close>). A held Back clears \<open>running\<close>, a held Ok
  toggles \<open>in_menu\<close>; a short release of Back or Ok does neither.
\<close>

theorem release_held_iff_threshold:
  "running (st (input_cb \<lparr>key = InputKeyBack, type = InputTypeRelease\<rparr> t1
                 (input_cb \<lparr>key = InputKeyBack, type = InputTypePress\<rparr> t0 m)))
     = (if t1 - t0 \<ge> 1000 then False else running (st m))
   \<and> in_menu (st (input_cb \<lparr>key = InputKeyBack, type = InputTypeRelease\<rparr> t1
                   (input_cb \<lparr>key = InputKeyBack, type = InputTypePress\<rparr> t0 m)))
     = in_menu (st m)
   \<and> in_menu (st (input_cb \<lparr>key = InputKeyOk, type = InputTypeRelease\<rparr> t1
                   (input_cb \<lparr>key = InputKeyOk, type = InputTypePress\<rparr> t0 m)))
     = (if t1 - t0 \<ge> 1000 then \<not> in_menu (st m) else in_menu (st m))
   \<and> running (st (input_cb \<lparr>key = InputKeyOk, type = InputTypeRelease\<rparr> t1
                   (input_cb \<lparr>key = InputKeyOk, type = InputTypePress\<rparr> t0 m)))
     = running (st m)
   \<and> (t0 \<le> t1 \<longrightarrow> (t1 - t0 \<ge> 1000) = (unat t1 - unat t0 \<ge> 1000))"
  by (simp add: input_cb_def store_defs emit_def HOLD_TIME_MS_def word_le_nat_alt unat_sub)

text \<open>The boundary: 999 ticks after the press is short, 1000 ticks is held.\<close>

theorem release_held_iff_threshold_witness:
  "running (st (input_cb \<lparr>key = InputKeyBack, type = InputTypeRelease\<rparr> 1004
                 (input_cb \<lparr>key = InputKeyBack, type = InputTypePress\<rparr> 5 boot)))
   \<and> \<not> running (st (input_cb \<lparr>key = InputKeyBack, type = InputTypeRelease\<rparr> 1005
                 (input_cb \<lparr>key = InputKeyBack, type = InputTypePress\<rparr> 5 boot)))
   \<and> \<not> in_menu (st (input_cb \<lparr>key = InputKeyOk, type = InputTypeRelease\<rparr> 1004
                 (input_cb \<lparr>key = InputKeyOk, type = InputTypePress\<rparr> 5 boot)))
   \<and> in_menu (st (input_cb \<lparr>key = InputKeyOk, type = InputTypeRelease\<rparr> 1005
                 (input_cb \<lparr>key = InputKeyOk, type = InputTypePress\<rparr> 5 boot)))"
  using release_held_iff_threshold [of 1004 5 boot]
        release_held_iff_threshold [of 1005 5 boot]
  by (simp add: boot_def initial_state_def)

text \<open>
  Claim C6. In Normal mode a short Ok release changes nothing: \<open>log_to_file\<close> and
  every other part of the machine stay as they were.
\<close>

theorem short_ok_release_outside_menu_is_noop:
  "\<not> in_menu (st m) \<Longrightarrow> now - ok_pressed_time (st m) < 1000 \<Longrightarrow>
   input_cb \<lparr>key = InputKeyOk, type = InputTypeRelease\<rparr> now m = m"
  by (rule release_ignored) (simp_all add: not_le)

theorem short_ok_release_outside_menu_is_noop_witness:
  "\<not> in_menu (st boot) \<and> (200 :: u32) - ok_pressed_time (st boot) < 1000
   \<and> input_cb \<lparr>key = InputKeyOk, type = InputTypeRelease\<rparr> 200 boot = boot"
proof -
  have normal: "\<not> in_menu (st boot)"
    by (simp add: boot_def initial_state_def)
  have short: "(200 :: u32) - ok_pressed_time (st boot) < 1000"
    by (simp add: boot_def initial_state_def)
  show ?thesis
    using normal short short_ok_release_outside_menu_is_noop [OF normal short]
    by simp
qed

text \<open>
  Claim C7. A release event takes at most one action: the shared state is left as
  it was, or exactly one of \<open>running\<close>, \<open>in_menu\<close>, \<open>log_to_file\<close> is written, and at most
  one store is made. A held Ok release in Menu mode leaves Menu mode and keeps
  \<open>log_to_file\<close>; a held Back release clears \<open>running\<close> and changes nothing else.
\<close>

theorem release_applies_at_most_one_action:
  "type ev = InputTypeRelease \<Longrightarrow>
     (st (input_cb ev now m) = st m
      \<or> st (input_cb ev now m) = (st m)\<lparr>running := False\<rparr>
      \<or> st (input_cb ev now m) = (st m)\<lparr>in_menu := \<not> in_menu (st m)\<rparr>
      \<or> st (input_cb ev now m) = (st m)\<lparr>log_to_file := \<not> log_to_file (st m)\<rparr>)
   \<and> length (trace (input_cb ev now m)) \<le> length (trace m) + 1
   \<and> (key ev = InputKeyOk \<and> now - ok_pressed_time (st m) \<ge> 1000 \<and> in_menu (st m)
        \<longrightarrow> st (input_cb ev now m) = (st m)\<lparr>in_menu := False\<rparr>)
   \<and> (key ev = InputKeyBack \<and> now - back_pressed_time (st m) \<ge> 1000
        \<longrightarrow> st (input_cb ev now m) = (st m)\<lparr>running := False\<rparr>)"
proof -
  assume release: "type ev = InputTypeRelease"
  then show ?thesis
  proof (cases rule: release_cases [of ev now m])
    case back_held
    then show ?thesis
      by (simp add: set_running_def emit_def)
  next
    case ok_held
    then show ?thesis
      by (simp add: set_in_menu_def emit_def)
  next
    case ok_short_in_menu
    then show ?thesis
      by (simp add: set_log_to_file_def emit_def not_le [symmetric])
  next
    case ignored
    then show ?thesis
      by auto
  qed
qed

theorem release_applies_at_most_one_action_witness:
  "log_to_file (st (input_cb \<lparr>key = InputKeyOk, type = InputTypeRelease\<rparr> 1000
                      (boot\<lparr>st := (st boot)\<lparr>in_menu := True, log_to_file := True\<rparr>\<rparr>)))
   \<and> \<not> in_menu (st (input_cb \<lparr>key = InputKeyOk, type = InputTypeRelease\<rparr> 1000
                      (boot\<lparr>st := (st boot)\<lparr>in_menu := True, log_to_file := True\<rparr>\<rparr>)))
   \<and> st (input_cb \<lparr>key = InputKeyBack, type = InputTypeRelease\<rparr> 1000 boot)
       = (st boot)\<lparr>running := False\<rparr>"
  using release_applies_at_most_one_action
          [of "\<lparr>key = InputKeyOk, type = InputTypeRelease\<rparr>" 1000
              "boot\<lparr>st := (st boot)\<lparr>in_menu := True, log_to_file := True\<rparr>\<rparr>"]
        release_applies_at_most_one_action
          [of "\<lparr>key = InputKeyBack, type = InputTypeRelease\<rparr>" 1000 boot]
  by (simp add: boot_def initial_state_def)

section \<open>Shutdown is final\<close>

lemma input_cb_keeps_stopped: "\<not> running (st m) \<Longrightarrow> \<not> running (st (input_cb ev now m))"
  by (simp add: input_cb_def store_defs emit_def Let_def)

lemma handle_keeps_stopped: "\<not> running (st m) \<Longrightarrow> \<not> running (st (handle e m))"
  by (cases e) (simp_all add: st_ir_callback input_cb_keeps_stopped)

text \<open>
  Claim C5. Once \<open>running\<close> is false it stays false through every sequence of
  infrared events, input events and render ticks; a held Back release makes it false.
\<close>

theorem stopped_stays_stopped:
  "(\<not> running (st m) \<longrightarrow> \<not> running (st (handle_all evs m)))
   \<and> (now - back_pressed_time (st m) \<ge> 1000 \<longrightarrow>
        \<not> running (st (handle_all evs
             (input_cb \<lparr>key = InputKeyBack, type = InputTypeRelease\<rparr> now m))))"
proof -
  have stays: "\<not> running (st m') \<Longrightarrow> \<not> running (st (handle_all evs m'))" for m'
  proof (induction evs arbitrary: m')
    case Nil
    then show ?case by simp
  next
    case (Cons e es)
    from Cons.prems have "\<not> running (st (handle e m'))"
      by (rule handle_keeps_stopped)
    then show ?case
      by (simp add: Cons.IH)
  qed
  have "\<not> running (st (input_cb \<lparr>key = InputKeyBack, type = InputTypeRelease\<rparr> now m))"
    if "now - back_pressed_time (st m) \<ge> 1000"
    using that by (simp add: input_cb_def store_defs emit_def HOLD_TIME_MS_def)
  with stays show ?thesis
    by blast
qed

theorem stopped_stays_stopped_witness:
  "\<not> running (st (handle_all
       [Input \<lparr>key = InputKeyOk, type = InputTypePress\<rparr> 1500,
        Infrared [100, 200, 150] 0x1000 0x0F,
        Render,
        Input \<lparr>key = InputKeyOk, type = InputTypeRelease\<rparr> 2600,
        Input \<lparr>key = InputKeyBack, type = InputTypePress\<rparr> 3000,
        Input \<lparr>key = InputKeyBack, type = InputTypeRelease\<rparr> 3100]
       (input_cb \<lparr>key = InputKeyBack, type = InputTypeRelease\<rparr> 1000 boot)))"
  using stopped_stays_stopped
          [of boot
              "[Input \<lparr>key = InputKeyOk, type = InputTypePress\<rparr> 1500,
                Infrared [100, 200, 150] 0x1000 0x0F,
                Render,
                Input \<lparr>key = InputKeyOk, type = InputTypeRelease\<rparr> 2600,
                Input \<lparr>key = InputKeyBack, type = InputTypePress\<rparr> 3000,
                Input \<lparr>key = InputKeyBack, type = InputTypeRelease\<rparr> 3100]"
              1000]
  by (simp add: boot_def initial_state_def)

section \<open>The infrared path\<close>

text \<open>
  Claim C10. \<^verbatim>\<open>process_ir\<close> writes \<open>last_rng\<close> and no other field of the shared
  state: \<open>running\<close>, \<open>in_menu\<close>, \<open>log_to_file\<close>, both press timestamps and the two handles
  are as before.
\<close>

theorem process_ir_changes_only_last_rng:
  "st (process_ir m rng) = (st m)\<lparr>last_rng := rng\<rparr>
   \<and> running (st (process_ir m rng)) = running (st m)
   \<and> in_menu (st (process_ir m rng)) = in_menu (st m)
   \<and> log_to_file (st (process_ir m rng)) = log_to_file (st m)
   \<and> back_pressed_time (st (process_ir m rng)) = back_pressed_time (st m)
   \<and> ok_pressed_time (st (process_ir m rng)) = ok_pressed_time (st m)"
  by (simp add: st_process_ir)

text \<open>
  Claim C8. The effects of one \<^verbatim>\<open>process_ir\<close> call, in program order, are the
  transmission of the formatted line, then (when logging is enabled) the calls on the
  log file, and last the store to \<open>last_rng\<close>; on return \<open>last_rng\<close> is the value whose
  line was just transmitted.
\<close>

theorem process_ir_writes_before_store:
  "trace (process_ir m rng) =
     trace m @ [Serial_tx (serial_handle (st m)) (format_rng rng)] @
     (if log_to_file (st m) then log_effects (format_rng rng) else []) @
     [Store Last_rng]
   \<and> last_rng (st (process_ir m rng)) = rng"
  by (simp add: trace_process_ir st_process_ir)

theorem process_ir_writes_before_store_witness:
  "trace (process_ir (boot\<lparr>st := (st boot)\<lparr>log_to_file := True\<rparr>\<rparr>) 12) =
     [Serial_tx 0 (''RNG:12'' @ [CHR 0x0A]),
      Record_open ''storage'', File_stream_alloc,
      File_stream_open ''/ext/flame_tunnel.log'' FSAM_WRITE FSOM_OPEN_ALWAYS,
      Stream_write (''RNG:12'' @ [CHR 0x0A]), File_stream_close, Record_close ''storage'',
      Store Last_rng]
   \<and> trace (process_ir boot 12) = [Serial_tx 0 (''RNG:12'' @ [CHR 0x0A]), Store Last_rng]
   \<and> last_rng (st (process_ir boot 12)) = 12"
  using process_ir_writes_before_store [of "boot\<lparr>st := (st boot)\<lparr>log_to_file := True\<rparr>\<rparr>" 12]
        process_ir_writes_before_store [of boot 12]
  by (simp add: boot_def initial_state_def log_effects_def RECORD_STORAGE_def format_rng_def
      dec.simps digit_char_def)

text \<open>
  Claim C4. The serial port receives exactly the formatted line, and the log file
  is opened, written and closed within the one call only when \<open>log_to_file\<close> is set
  (lemmas \<open>trace_process_ir\<close>, \<open>files_process_ir_disabled\<close>). The file is opened with
  \<^verbatim>\<open>FSOM_OPEN_ALWAYS\<close>, though, which leaves the write position at offset 0: the line
  is written over the start of the file, not appended. With the log holding the
  record of value 7, an event with value 12 leaves only the record of 12.
\<close>

theorem log_write_overwrites_start_of_file:
  "files (process_ir
            (boot\<lparr>st := (st boot)\<lparr>log_to_file := True\<rparr>,
                  files := [''/ext/flame_tunnel.log'' \<mapsto> ''RNG:7'' @ [CHR 0x0A]]\<rparr>) 12)
     ''/ext/flame_tunnel.log'' = Some (''RNG:12'' @ [CHR 0x0A])
   \<and> files (process_ir
            (boot\<lparr>st := (st boot)\<lparr>log_to_file := True\<rparr>,
                  files := [''/ext/flame_tunnel.log'' \<mapsto> ''RNG:7'' @ [CHR 0x0A]]\<rparr>) 12)
     ''/ext/flame_tunnel.log'' \<noteq> Some ((''RNG:7'' @ [CHR 0x0A]) @ format_rng 12)"
  by (simp add: files_process_ir_enabled boot_def initial_state_def write_at_def
      format_rng_def dec.simps digit_char_def)

section \<open>Locking\<close>

text \<open>
  The infrared path stores under the mutex, whatever the signal and the state.
\<close>

lemma ir_callback_stores_locked:
  "stores_locked held (trace (ir_callback (m\<lparr>trace := []\<rparr>) sig hw_random cyccnt))"
  by (simp add: trace_ir_callback log_effects_def)

text \<open>
  The input path makes no call on the mutex: its trace keeps the discipline only
  when the event stores nothing.
\<close>

lemma input_cb_stores_unlocked:
  "stores_locked False (trace (input_cb ev now (m\<lparr>trace := []\<rparr>)))
     = (trace (input_cb ev now (m\<lparr>trace := []\<rparr>)) = [])"
  by (simp add: input_cb_def store_defs emit_def Let_def)

text \<open>
  Claim C9. \<^verbatim>\<open>ir_callback\<close> acquires the mutex before it stores and releases it
  after; \<^verbatim>\<open>input_cb\<close> acquires nothing. A held Ok release on the start state stores
  \<open>in_menu\<close> with the mutex not held.
\<close>

theorem input_cb_stores_without_mutex:
  "trace (input_cb \<lparr>key = InputKeyOk, type = InputTypeRelease\<rparr> 1000 boot) = [Store In_menu]
   \<and> \<not> stores_locked False
         (trace (input_cb \<lparr>key = InputKeyOk, type = InputTypeRelease\<rparr> 1000 boot))
   \<and> stores_locked False (trace (ir_callback boot [100, 200, 150] 0x1000 0x0F))"
  by (simp add: input_cb_def store_defs emit_def HOLD_TIME_MS_def boot_def initial_state_def
      trace_ir_callback log_effects_def)

end
